theory Spec2Isabelle
  imports Main
begin

section \<open>Fused scaled-matmul epilogues (scaled\_mm\_epilogues\_c3x.hpp)\<close>

text \<open>
  The header composes four epilogues for a quantized GEMM out of CUTLASS visitor-tree
  nodes (\<open>Sm90EVT\<close>) and builds their runtime argument blocks from tensors. The
  embedding keeps the two layers of the source apart:
  \<^item> the types the header declares (load descriptors, compute nodes, the four
    \<open>EVTCompute\<close> trees) become values of a datatype of visitor trees;
  \<^item> \<open>args_from_tensor\<close> and the four \<open>prepare_args\<close> become functions from
    tensor handles to argument blocks, with the \<open>static_assert\<close> of the source as an
    error result.
  Element values are taken from one numeric type \<open>'a\<close>; which C++ element type a value
  has is tracked by a tag, and every conversion between different element types goes
  through an explicit conversion function. The arithmetic of \<open>cutlass::multiplies\<close> and
  \<open>cutlass::multiply_add\<close> is the \<open>*\<close> and \<open>+\<close> of \<open>'a\<close>; rounding inside
  floating-point arithmetic is not modelled.
\<close>

subsection \<open>Tensors and device memory\<close>

type_synonym addr = nat

text \<open>
  What the header reads of a \<open>torch::Tensor\<close>: \<open>data_ptr()\<close> and \<open>numel()\<close>. The record
  is used through its extensible scheme, so a tensor may carry anything else as well.
  Address \<open>0\<close> is the null pointer. Addresses count elements.
\<close>

record tensor =
  data_ptr :: addr
  numel :: nat

text \<open>Device memory: the cells that may be read; \<open>None\<close> is an invalid read.\<close>

type_synonym 'a heap = "addr \<rightharpoonup> 'a"

subsection \<open>Visitor trees\<close>

text \<open>The element types that occur in the header: \<open>float\<close>, \<open>ElementD\<close>, \<open>ElementAcc\<close>.\<close>

datatype element = Float | ElementD | ElementAcc

text \<open>\<open>Stride<Int<sM>, Int<sN>, Int<sL>>\<close>: the strides along M (rows), N (columns), L (batch).\<close>

type_synonym stride = "nat \<times> nat \<times> nat"

text \<open>An output coordinate \<open>(m, n, l)\<close>: row, column, batch.\<close>

type_synonym coord = "nat \<times> nat \<times> nat"

datatype compute_fn = multiplies | multiply_add

text \<open>
  The node types the header instantiates. \<open>Sm90EVT fn out compute children\<close> stands for
  \<open>Sm90EVT<Sm90Compute<fn, out, compute, round_to_nearest>, children...>\<close>; the Boolean
  of the two plain broadcasts is \<open>EnableNullptr\<close>. The stage count, the tile shape and
  the alignment of the source are layout parameters and are left out.
\<close>

datatype evt =
    Sm90AccFetch
  | Sm90ColOrScalarBroadcast element stride
  | Sm90RowOrScalarBroadcast element stride
  | Sm90ColBroadcast element stride bool
  | Sm90RowBroadcast element stride bool
  | Sm90EVT compute_fn element element "evt list"

text \<open>
  Argument blocks. \<open>OrScalar_Arguments ptr flag\<close> is the \<open>Arguments{data_ptr, numel != 1}\<close>
  of the scalar-or-vector loads (the flag set means vector mode), \<open>Broadcast_Arguments ptr\<close>
  the \<open>Arguments{data_ptr}\<close> of the plain loads, \<open>EVT_Arguments\<close> the aggregate of a tree
  node, one entry per child in order. An aggregate initialised with fewer entries than it
  has members leaves the rest value-initialised: \<open>Default_Arguments\<close>.
\<close>

datatype args =
    OrScalar_Arguments addr bool
  | Broadcast_Arguments addr
  | Default_Arguments
  | EVT_Arguments "args list"

subsection \<open>ScaledEpilogueBase\<close>

definition Accum :: evt where
  "Accum = Sm90AccFetch"

definition ColOrScalarLoad :: "element \<Rightarrow> evt" where
  "ColOrScalarLoad T = Sm90ColOrScalarBroadcast T (1, 0, 0)"

definition RowOrScalarLoad :: "element \<Rightarrow> evt" where
  "RowOrScalarLoad T = Sm90RowOrScalarBroadcast T (0, 1, 0)"

definition ColLoad :: "element \<Rightarrow> bool \<Rightarrow> evt" where
  "ColLoad T EnableNullPtr = Sm90ColBroadcast T (1, 0, 0) EnableNullPtr"

definition RowLoad :: "element \<Rightarrow> bool \<Rightarrow> evt" where
  "RowLoad T EnableNullPtr = Sm90RowBroadcast T (0, 1, 0) EnableNullPtr"

text \<open>The only way argument construction can fail: the \<open>static_assert\<close> of the source.\<close>

datatype error = Static_Assert_Failed

text \<open>
  \<open>args_from_tensor<Descriptor, T>(torch::Tensor const&)\<close>. The \<open>if constexpr\<close> on the
  descriptor type is a test on the descriptor value; the \<open>static_assert\<close> of the other
  branch rejects the two descriptors that allow a null pointer. The function is meant at
  the instantiations the header makes, where the descriptor loads elements of type \<open>T\<close>.
\<close>

definition args_from_tensor :: "evt \<Rightarrow> element \<Rightarrow> 'z tensor_scheme \<Rightarrow> error + args" where
  "args_from_tensor Descriptor T tensor =
     (let ptr = data_ptr tensor in
      if Descriptor = ColOrScalarLoad T \<or> Descriptor = RowOrScalarLoad T
      then Inr (OrScalar_Arguments ptr (numel tensor \<noteq> 1))
      else if \<not> (Descriptor \<noteq> ColLoad T True \<and> Descriptor \<noteq> RowLoad T True)
      then Inl Static_Assert_Failed
      else Inr (Broadcast_Arguments ptr))"

text \<open>
  \<open>args_from_tensor<Descriptor, T>(c10::optional<torch::Tensor> const&)\<close>, the overload for
  an operand that may be absent: a missing tensor gives the null pointer, and the
  \<open>static_assert\<close> admits only the two descriptors that allow it. None of the four
  epilogues calls it.
\<close>

definition args_from_optional_tensor ::
  "evt \<Rightarrow> element \<Rightarrow> 'z tensor_scheme option \<Rightarrow> error + args" where
  "args_from_optional_tensor Descriptor T tensor =
     (let ptr = (case tensor of Some t \<Rightarrow> data_ptr t | None \<Rightarrow> 0) in
      if \<not> (Descriptor = ColLoad T True \<or> Descriptor = RowLoad T True)
      then Inl Static_Assert_Failed
      else Inr (Broadcast_Arguments ptr))"

text \<open>The aliases every one of the four epilogues declares with the same right-hand side.\<close>

definition ScaleA :: evt where
  "ScaleA = ColOrScalarLoad Float"

definition ScaleB :: evt where
  "ScaleB = RowOrScalarLoad Float"

definition Bias :: evt where
  "Bias = RowLoad ElementD False"

definition Ls :: evt where
  "Ls = RowLoad ElementD False"

text \<open>\<open>EVTCompute0\<close>, the inner node of all four epilogues: \<open>ScaleB * Accum\<close> in \<open>float\<close>.\<close>

definition EVTCompute0 :: evt where
  "EVTCompute0 = Sm90EVT multiplies Float Float [ScaleB, Accum]"

subsection \<open>ScaledEpilogue\<close>

definition ScaledEpilogue_EVTCompute :: evt where
  "ScaledEpilogue_EVTCompute = Sm90EVT multiplies ElementD Float [ScaleA, EVTCompute0]"

definition ScaledEpilogue_prepare_args ::
  "'z tensor_scheme \<Rightarrow> 'y tensor_scheme \<Rightarrow> error + args" where
  "ScaledEpilogue_prepare_args a_scales b_scales =
     (case args_from_tensor ScaleA Float a_scales of Inl e \<Rightarrow> Inl e | Inr a_args \<Rightarrow>
     (case args_from_tensor ScaleB Float b_scales of Inl e \<Rightarrow> Inl e | Inr b_args \<Rightarrow>
      let evt0_args = EVT_Arguments [b_args]
      in Inr (EVT_Arguments [a_args, evt0_args])))"

subsection \<open>ScaledEpilogueBias\<close>

definition ScaledEpilogueBias_EVTCompute :: evt where
  "ScaledEpilogueBias_EVTCompute =
     Sm90EVT multiply_add ElementD Float [ScaleA, EVTCompute0, Bias]"

definition ScaledEpilogueBias_prepare_args ::
  "'z tensor_scheme \<Rightarrow> 'y tensor_scheme \<Rightarrow> 'x tensor_scheme \<Rightarrow> error + args" where
  "ScaledEpilogueBias_prepare_args a_scales b_scales bias =
     (case args_from_tensor ScaleA Float a_scales of Inl e \<Rightarrow> Inl e | Inr a_args \<Rightarrow>
     (case args_from_tensor ScaleB Float b_scales of Inl e \<Rightarrow> Inl e | Inr b_args \<Rightarrow>
     (case args_from_tensor Bias ElementD bias of Inl e \<Rightarrow> Inl e | Inr bias_args \<Rightarrow>
      let evt0_args = EVT_Arguments [b_args]
      in Inr (EVT_Arguments [a_args, evt0_args, bias_args]))))"

subsection \<open>ScaledEpilogueLs\<close>

definition ScaledEpilogueLs_EVTCompute1 :: evt where
  "ScaledEpilogueLs_EVTCompute1 = Sm90EVT multiplies Float Float [ScaleA, EVTCompute0]"

definition ScaledEpilogueLs_EVTCompute :: evt where
  "ScaledEpilogueLs_EVTCompute =
     Sm90EVT multiplies ElementD Float [Ls, ScaledEpilogueLs_EVTCompute1]"

definition ScaledEpilogueLs_prepare_args ::
  "'z tensor_scheme \<Rightarrow> 'y tensor_scheme \<Rightarrow> 'x tensor_scheme \<Rightarrow> error + args" where
  "ScaledEpilogueLs_prepare_args a_scales b_scales ls =
     (case args_from_tensor ScaleA Float a_scales of Inl e \<Rightarrow> Inl e | Inr a_args \<Rightarrow>
     (case args_from_tensor ScaleB Float b_scales of Inl e \<Rightarrow> Inl e | Inr b_args \<Rightarrow>
     (case args_from_tensor Ls ElementD ls of Inl e \<Rightarrow> Inl e | Inr ls_args \<Rightarrow>
      let evt0_args = EVT_Arguments [b_args];
          evt1_args = EVT_Arguments [a_args, evt0_args]
      in Inr (EVT_Arguments [ls_args, evt1_args]))))"

subsection \<open>ScaledEpilogueBiasLs\<close>

definition ScaledEpilogueBiasLs_EVTCompute1 :: evt where
  "ScaledEpilogueBiasLs_EVTCompute1 =
     Sm90EVT multiply_add Float Float [ScaleA, EVTCompute0, Bias]"

definition ScaledEpilogueBiasLs_EVTCompute :: evt where
  "ScaledEpilogueBiasLs_EVTCompute =
     Sm90EVT multiplies ElementD Float [Ls, ScaledEpilogueBiasLs_EVTCompute1]"

definition ScaledEpilogueBiasLs_prepare_args ::
  "'z tensor_scheme \<Rightarrow> 'y tensor_scheme \<Rightarrow> 'x tensor_scheme \<Rightarrow> 'w tensor_scheme
   \<Rightarrow> error + args" where
  "ScaledEpilogueBiasLs_prepare_args a_scales b_scales bias ls =
     (case args_from_tensor ScaleA Float a_scales of Inl e \<Rightarrow> Inl e | Inr a_args \<Rightarrow>
     (case args_from_tensor ScaleB Float b_scales of Inl e \<Rightarrow> Inl e | Inr b_args \<Rightarrow>
     (case args_from_tensor Bias ElementD bias of Inl e \<Rightarrow> Inl e | Inr bias_args \<Rightarrow>
     (case args_from_tensor Ls ElementD ls of Inl e \<Rightarrow> Inl e | Inr ls_args \<Rightarrow>
      let evt0_args = EVT_Arguments [b_args];
          evt1_args = EVT_Arguments [a_args, evt0_args, bias_args]
      in Inr (EVT_Arguments [ls_args, evt1_args])))))"

subsection \<open>Evaluation of a visitor tree\<close>

text \<open>
  Modelled from the spec: the evaluator of the nodes, which lives in
  \<open>broadcast_load_epilogue_c3x.hpp\<close> and in the CUTLASS fusion headers, neither of them
  among the sources. The spec's Broadcast Descriptor produces one value for an output
  coordinate, a true scalar ignoring the coordinate and a vector being indexed along its
  axis; the axis is the one the stride declared in the header selects. An absent operand
  (null pointer) yields the constant 0 where the descriptor allows it. The spec's Compute
  Node applies multiply, or multiply-add (multiply two, add a third), to the values of its
  children at the current coordinate, in the declared compute type, and converts the
  result to the declared output type.
\<close>

text \<open>Modelled from the spec: the element type of the value a node produces.\<close>

fun out_type :: "evt \<Rightarrow> element" where
  "out_type Sm90AccFetch = ElementAcc"
| "out_type (Sm90ColOrScalarBroadcast T d) = T"
| "out_type (Sm90RowOrScalarBroadcast T d) = T"
| "out_type (Sm90ColBroadcast T d en) = T"
| "out_type (Sm90RowBroadcast T d en) = T"
| "out_type (Sm90EVT fn out compute children) = out"

text \<open>
  Modelled from the spec: numeric conversion. \<open>cvt to from\<close> is the conversion between two
  different element types, a parameter of the evaluation; between equal types nothing
  is converted.
\<close>

definition convert :: "(element \<Rightarrow> element \<Rightarrow> 'a \<Rightarrow> 'a) \<Rightarrow> element \<Rightarrow> element \<Rightarrow> 'a \<Rightarrow> 'a" where
  "convert cvt to from x = (if to = from then x else cvt to from x)"

text \<open>Modelled from the spec: a vector operand read at a coordinate through its stride.\<close>

fun load :: "'a heap \<Rightarrow> addr \<Rightarrow> stride \<Rightarrow> coord \<Rightarrow> 'a option" where
  "load h ptr (sM, sN, sL) (m, n, l) = h (ptr + m * sM + n * sN + l * sL)"

text \<open>Modelled from the spec: the two elementwise operators, on the values of the children.\<close>

fun apply_fn :: "compute_fn \<Rightarrow> 'a::{times,plus} list \<Rightarrow> 'a option" where
  "apply_fn multiplies [a, b] = Some (a * b)"
| "apply_fn multiply_add [a, b, c] = Some (a * b + c)"
| "apply_fn fn xs = None"

text \<open>
  Modelled from the spec: one visit of a tree at one coordinate. \<open>acc\<close> is the accumulator
  value the matmul engine supplies for the coordinate. The result is \<open>None\<close> when a read
  is invalid or when the argument block does not have the shape of the tree.
\<close>

fun visit :: "(element \<Rightarrow> element \<Rightarrow> 'a \<Rightarrow> 'a) \<Rightarrow> 'a::{times,plus,zero} heap \<Rightarrow> 'a \<Rightarrow> coord
              \<Rightarrow> evt \<Rightarrow> args \<Rightarrow> 'a option"
  and visit_children :: "(element \<Rightarrow> element \<Rightarrow> 'a \<Rightarrow> 'a) \<Rightarrow> 'a heap \<Rightarrow> 'a \<Rightarrow> coord
              \<Rightarrow> element \<Rightarrow> evt list \<Rightarrow> args list \<Rightarrow> 'a list option" where
  "visit cvt h acc c Sm90AccFetch a = Some acc"
| "visit cvt h acc c (Sm90ColOrScalarBroadcast T dCol) a =
     (case a of
        OrScalar_Arguments ptr_col col_broadcast \<Rightarrow>
          if col_broadcast then load h ptr_col dCol c else h ptr_col
      | _ \<Rightarrow> None)"
| "visit cvt h acc c (Sm90RowOrScalarBroadcast T dRow) a =
     (case a of
        OrScalar_Arguments ptr_row row_broadcast \<Rightarrow>
          if row_broadcast then load h ptr_row dRow c else h ptr_row
      | _ \<Rightarrow> None)"
| "visit cvt h acc c (Sm90ColBroadcast T dCol EnableNullptr) a =
     (case a of
        Broadcast_Arguments ptr_col \<Rightarrow>
          if EnableNullptr \<and> ptr_col = 0 then Some 0 else load h ptr_col dCol c
      | _ \<Rightarrow> None)"
| "visit cvt h acc c (Sm90RowBroadcast T dRow EnableNullptr) a =
     (case a of
        Broadcast_Arguments ptr_row \<Rightarrow>
          if EnableNullptr \<and> ptr_row = 0 then Some 0 else load h ptr_row dRow c
      | _ \<Rightarrow> None)"
| "visit cvt h acc c (Sm90EVT fn out compute children) a =
     (case a of
        EVT_Arguments as \<Rightarrow>
          (case visit_children cvt h acc c compute children as of
             None \<Rightarrow> None
           | Some inputs \<Rightarrow> map_option (convert cvt out compute) (apply_fn fn inputs))
      | _ \<Rightarrow> None)"
| "visit_children cvt h acc c compute [] as = Some []"
| "visit_children cvt h acc c compute (child # children) as =
     (case visit cvt h acc c child (case as of [] \<Rightarrow> Default_Arguments | a # _ \<Rightarrow> a) of
        None \<Rightarrow> None
      | Some v \<Rightarrow>
          (case visit_children cvt h acc c compute children (tl as) of
             None \<Rightarrow> None
           | Some vs \<Rightarrow> Some (convert cvt compute (out_type child) v # vs)))"

text \<open>
  Modelled from the spec: \<open>evaluateEpilogue\<close>, the tree visited once per element of the
  accumulator tile (a list of rows), in batch \<open>l\<close>.
\<close>

definition evaluate_epilogue ::
  "(element \<Rightarrow> element \<Rightarrow> 'a \<Rightarrow> 'a) \<Rightarrow> 'a::{times,plus,zero} heap \<Rightarrow> evt \<Rightarrow> args
   \<Rightarrow> nat \<Rightarrow> 'a list list \<Rightarrow> 'a option list list" where
  "evaluate_epilogue cvt h tree a l tile =
     map (\<lambda>m. map (\<lambda>n. visit cvt h (tile ! m ! n) (m, n, l) tree a)
                  [0..<length (tile ! m)])
         [0..<length tile]"

text \<open>
  Modelled from the spec: one kernel launch as the spec's two calls in a row,
  \<open>buildArguments\<close> (the \<open>prepare_args\<close> of the variant) and then \<open>evaluateEpilogue\<close> on
  its argument block, at one coordinate and on a whole tile. A rejected argument
  construction evaluates nothing.
\<close>

definition launch ::
  "(element \<Rightarrow> element \<Rightarrow> 'a \<Rightarrow> 'a) \<Rightarrow> 'a::{times,plus,zero} heap \<Rightarrow> evt \<Rightarrow> error + args
   \<Rightarrow> 'a \<Rightarrow> coord \<Rightarrow> 'a option" where
  "launch cvt h tree prepared acc c =
     (case prepared of Inl e \<Rightarrow> None | Inr a \<Rightarrow> visit cvt h acc c tree a)"

definition launch_tile ::
  "(element \<Rightarrow> element \<Rightarrow> 'a \<Rightarrow> 'a) \<Rightarrow> 'a::{times,plus,zero} heap \<Rightarrow> evt \<Rightarrow> error + args
   \<Rightarrow> nat \<Rightarrow> 'a list list \<Rightarrow> error + 'a option list list" where
  "launch_tile cvt h tree prepared l tile =
     (case prepared of Inl e \<Rightarrow> Inl e | Inr a \<Rightarrow> Inr (evaluate_epilogue cvt h tree a l tile))"

subsection \<open>The operands as the specification describes them\<close>

text \<open>
  The spec's ScaleOperand: an array of exactly one element is a scalar, the same value at
  every position; any other array is a vector with one value per index along its axis.
  \<open>scale_entry h t i\<close> is the value of scale operand \<open>t\<close> at index \<open>i\<close> of its axis.
\<close>

definition scale_entry :: "'a heap \<Rightarrow> 'z tensor_scheme \<Rightarrow> nat \<Rightarrow> 'a option" where
  "scale_entry h t i = (if numel t = 1 then h (data_ptr t) else h (data_ptr t + i))"

text \<open>The spec's BiasOperand and MultiplierOperand: always a vector, one value per column.\<close>

definition vector_entry :: "'a heap \<Rightarrow> 'z tensor_scheme \<Rightarrow> nat \<Rightarrow> 'a option" where
  "vector_entry h t i = h (data_ptr t + i)"

text \<open>
  Two memories seen through one operand handle: \<open>unchanged\<close> when every entry of the
  operand is the same in both, \<open>changed_only_at\<close> index \<open>i\<close> when every other entry is.
  The entries of an operand are those below its element count.
\<close>

definition unchanged :: "'a heap \<Rightarrow> 'a heap \<Rightarrow> 'z tensor_scheme \<Rightarrow> bool" where
  "unchanged h h' t = (\<forall>k<numel t. h' (data_ptr t + k) = h (data_ptr t + k))"

definition changed_only_at :: "'a heap \<Rightarrow> 'a heap \<Rightarrow> 'z tensor_scheme \<Rightarrow> nat \<Rightarrow> bool" where
  "changed_only_at h h' t i =
     (\<forall>k<numel t. k \<noteq> i \<longrightarrow> h' (data_ptr t + k) = h (data_ptr t + k))"

text \<open>The pointers an argument block holds.\<close>

fun pointers :: "args \<Rightarrow> addr set"
  and pointers_list :: "args list \<Rightarrow> addr set" where
  "pointers (OrScalar_Arguments ptr flag) = {ptr}"
| "pointers (Broadcast_Arguments ptr) = {ptr}"
| "pointers Default_Arguments = {}"
| "pointers (EVT_Arguments as) = pointers_list as"
| "pointers_list [] = {}"
| "pointers_list (a # as) = pointers a \<union> pointers_list as"

subsection \<open>Argument construction as calls in a world\<close>

text \<open>
  The same functions once more, with what a call could touch made explicit: the world
  holds the device memory and the set of addresses allocated for operand storage, and
  every call takes the world and returns it. The statements of the source are kept in
  their order; a step of the source that neither writes memory nor allocates hands the
  world on as it received it.
\<close>

record 'a world =
  memory :: "'a heap"
  allocated :: "addr set"

text \<open>
  Modelled from the spec: the two accessors of \<open>torch::Tensor\<close> the header calls,
  \<open>data_ptr()\<close> and \<open>numel()\<close>. The spec's operand handle is a data pointer with an
  element count; reading either reads the handle, not the memory behind it.
\<close>

definition data_ptr_call :: "'z tensor_scheme \<Rightarrow> 'a world \<Rightarrow> addr \<times> 'a world" where
  "data_ptr_call tensor w = (data_ptr tensor, w)"

definition numel_call :: "'z tensor_scheme \<Rightarrow> 'a world \<Rightarrow> nat \<times> 'a world" where
  "numel_call tensor w = (numel tensor, w)"

definition args_from_tensor_call ::
  "evt \<Rightarrow> element \<Rightarrow> 'z tensor_scheme \<Rightarrow> 'a world \<Rightarrow> (error + args) \<times> 'a world" where
  "args_from_tensor_call Descriptor T tensor w =
     (case data_ptr_call tensor w of (ptr, w1) \<Rightarrow>
      if Descriptor = ColOrScalarLoad T \<or> Descriptor = RowOrScalarLoad T
      then (case numel_call tensor w1 of (n, w2) \<Rightarrow>
              (Inr (OrScalar_Arguments ptr (n \<noteq> 1)), w2))
      else if \<not> (Descriptor \<noteq> ColLoad T True \<and> Descriptor \<noteq> RowLoad T True)
      then (Inl Static_Assert_Failed, w1)
      else (Inr (Broadcast_Arguments ptr), w1))"

definition ScaledEpilogue_prepare_args_call ::
  "'z tensor_scheme \<Rightarrow> 'y tensor_scheme \<Rightarrow> 'a world \<Rightarrow> (error + args) \<times> 'a world" where
  "ScaledEpilogue_prepare_args_call a_scales b_scales w =
     (case args_from_tensor_call ScaleA Float a_scales w of
        (Inl e, w1) \<Rightarrow> (Inl e, w1)
      | (Inr a_args, w1) \<Rightarrow>
     (case args_from_tensor_call ScaleB Float b_scales w1 of
        (Inl e, w2) \<Rightarrow> (Inl e, w2)
      | (Inr b_args, w2) \<Rightarrow>
          let evt0_args = EVT_Arguments [b_args]
          in (Inr (EVT_Arguments [a_args, evt0_args]), w2)))"

definition ScaledEpilogueBias_prepare_args_call ::
  "'z tensor_scheme \<Rightarrow> 'y tensor_scheme \<Rightarrow> 'x tensor_scheme \<Rightarrow> 'a world
   \<Rightarrow> (error + args) \<times> 'a world" where
  "ScaledEpilogueBias_prepare_args_call a_scales b_scales bias w =
     (case args_from_tensor_call ScaleA Float a_scales w of
        (Inl e, w1) \<Rightarrow> (Inl e, w1)
      | (Inr a_args, w1) \<Rightarrow>
     (case args_from_tensor_call ScaleB Float b_scales w1 of
        (Inl e, w2) \<Rightarrow> (Inl e, w2)
      | (Inr b_args, w2) \<Rightarrow>
     (case args_from_tensor_call Bias ElementD bias w2 of
        (Inl e, w3) \<Rightarrow> (Inl e, w3)
      | (Inr bias_args, w3) \<Rightarrow>
          let evt0_args = EVT_Arguments [b_args]
          in (Inr (EVT_Arguments [a_args, evt0_args, bias_args]), w3))))"

definition ScaledEpilogueLs_prepare_args_call ::
  "'z tensor_scheme \<Rightarrow> 'y tensor_scheme \<Rightarrow> 'x tensor_scheme \<Rightarrow> 'a world
   \<Rightarrow> (error + args) \<times> 'a world" where
  "ScaledEpilogueLs_prepare_args_call a_scales b_scales ls w =
     (case args_from_tensor_call ScaleA Float a_scales w of
        (Inl e, w1) \<Rightarrow> (Inl e, w1)
      | (Inr a_args, w1) \<Rightarrow>
     (case args_from_tensor_call ScaleB Float b_scales w1 of
        (Inl e, w2) \<Rightarrow> (Inl e, w2)
      | (Inr b_args, w2) \<Rightarrow>
     (case args_from_tensor_call Ls ElementD ls w2 of
        (Inl e, w3) \<Rightarrow> (Inl e, w3)
      | (Inr ls_args, w3) \<Rightarrow>
          let evt0_args = EVT_Arguments [b_args];
              evt1_args = EVT_Arguments [a_args, evt0_args]
          in (Inr (EVT_Arguments [ls_args, evt1_args]), w3))))"

definition ScaledEpilogueBiasLs_prepare_args_call ::
  "'z tensor_scheme \<Rightarrow> 'y tensor_scheme \<Rightarrow> 'x tensor_scheme \<Rightarrow> 'w tensor_scheme \<Rightarrow> 'a world
   \<Rightarrow> (error + args) \<times> 'a world" where
  "ScaledEpilogueBiasLs_prepare_args_call a_scales b_scales bias ls w =
     (case args_from_tensor_call ScaleA Float a_scales w of
        (Inl e, w1) \<Rightarrow> (Inl e, w1)
      | (Inr a_args, w1) \<Rightarrow>
     (case args_from_tensor_call ScaleB Float b_scales w1 of
        (Inl e, w2) \<Rightarrow> (Inl e, w2)
      | (Inr b_args, w2) \<Rightarrow>
     (case args_from_tensor_call Bias ElementD bias w2 of
        (Inl e, w3) \<Rightarrow> (Inl e, w3)
      | (Inr bias_args, w3) \<Rightarrow>
     (case args_from_tensor_call Ls ElementD ls w3 of
        (Inl e, w4) \<Rightarrow> (Inl e, w4)
      | (Inr ls_args, w4) \<Rightarrow>
          let evt0_args = EVT_Arguments [b_args];
              evt1_args = EVT_Arguments [a_args, evt0_args, bias_args]
          in (Inr (EVT_Arguments [ls_args, evt1_args]), w4)))))"

subsection \<open>The concrete scenario of the specification\<close>

text \<open>
  Accumulator tile \<open>[[1,2],[3,4]]\<close>, scaleA \<open>[2,3]\<close> at address 100, scaleB \<open>[10,100]\<close> at
  address 200, bias \<open>[1,1]\<close> at address 300, multiplier \<open>[2,1]\<close> at address 400. Beside
  them, for the laws about neutral operands: a one-element array \<open>[5]\<close> at address 500,
  a zero vector \<open>[0,0]\<close> at 600, a vector of ones \<open>[1,1]\<close> at 700, a one-element
  array \<open>[1]\<close> at 800 and a multiplier \<open>[2,2]\<close> at 1000. All values are integers, and
  the conversion \<open>exact\<close> changes no value.
\<close>

definition example_heap :: "int heap" where
  "example_heap = map_of
     [(100, 2), (101, 3), (200, 10), (201, 100), (300, 1), (301, 1), (400, 2), (401, 1),
      (500, 5), (600, 0), (601, 0), (700, 1), (701, 1), (800, 1), (1000, 2), (1001, 2)]"

definition example_tile :: "int list list" where
  "example_tile = [[1, 2], [3, 4]]"

definition example_a_scales :: tensor where
  "example_a_scales = \<lparr>data_ptr = 100, numel = 2\<rparr>"

definition example_b_scales :: tensor where
  "example_b_scales = \<lparr>data_ptr = 200, numel = 2\<rparr>"

definition example_bias :: tensor where
  "example_bias = \<lparr>data_ptr = 300, numel = 2\<rparr>"

definition example_ls :: tensor where
  "example_ls = \<lparr>data_ptr = 400, numel = 2\<rparr>"

definition example_scalar :: tensor where
  "example_scalar = \<lparr>data_ptr = 500, numel = 1\<rparr>"

definition example_zeros :: tensor where
  "example_zeros = \<lparr>data_ptr = 600, numel = 2\<rparr>"

definition example_ones :: tensor where
  "example_ones = \<lparr>data_ptr = 700, numel = 2\<rparr>"

definition example_one :: tensor where
  "example_one = \<lparr>data_ptr = 800, numel = 1\<rparr>"

definition example_twos :: tensor where
  "example_twos = \<lparr>data_ptr = 1000, numel = 2\<rparr>"

definition exact :: "element \<Rightarrow> element \<Rightarrow> int \<Rightarrow> int" where
  "exact to from x = x"

text \<open>
  A narrowing output type, for comparison: the conversion to \<open>ElementD\<close> keeps the integers
  from 4096 up to 8192 in steps of 4, rounding to the nearest step and a tie to the even
  one, as round-to-nearest conversion to a 16-bit float with an 11-bit significand does;
  smaller values, and the conversions to \<open>float\<close>, change nothing.
\<close>

definition nearest_step :: "int \<Rightarrow> int" where
  "nearest_step x =
     (let q = x div 4; r = x mod 4
      in if r < 2 then 4 * q
         else if 2 < r then 4 * (q + 1)
         else if even q then 4 * q else 4 * (q + 1))"

definition narrowing :: "element \<Rightarrow> element \<Rightarrow> int \<Rightarrow> int" where
  "narrowing to from x =
     (if to = ElementD \<and> 4096 \<le> x \<and> x < 8192 then nearest_step x else x)"

text \<open>Two worlds: one holding the scenario, with its arrays allocated, and an empty one.\<close>

definition example_world :: "int world" where
  "example_world =
     \<lparr>memory = example_heap,
      allocated = {100, 101, 200, 201, 300, 301, 400, 401}\<rparr>"

definition empty_world :: "int world" where
  "empty_world = \<lparr>memory = Map.empty, allocated = {}\<rparr>"

section \<open>Properties\<close>

lemmas descriptor_defs = Accum_def ColOrScalarLoad_def RowOrScalarLoad_def ColLoad_def
  RowLoad_def ScaleA_def ScaleB_def Bias_def Ls_def

lemmas tree_defs = EVTCompute0_def ScaledEpilogue_EVTCompute_def
  ScaledEpilogueBias_EVTCompute_def ScaledEpilogueLs_EVTCompute1_def
  ScaledEpilogueLs_EVTCompute_def ScaledEpilogueBiasLs_EVTCompute1_def
  ScaledEpilogueBiasLs_EVTCompute_def

lemmas prepare_defs = args_from_tensor_def ScaledEpilogue_prepare_args_def
  ScaledEpilogueBias_prepare_args_def ScaledEpilogueLs_prepare_args_def
  ScaledEpilogueBiasLs_prepare_args_def

lemmas example_defs = example_heap_def example_tile_def example_a_scales_def
  example_b_scales_def example_bias_def example_ls_def example_scalar_def
  example_zeros_def example_ones_def example_one_def example_twos_def exact_def

subsection \<open>Argument blocks and launches, unfolded\<close>

lemma prepare_Scaled:
  "ScaledEpilogue_prepare_args a b =
     Inr (EVT_Arguments [OrScalar_Arguments (data_ptr a) (numel a \<noteq> 1),
                         EVT_Arguments [OrScalar_Arguments (data_ptr b) (numel b \<noteq> 1)]])"
  by (simp add: prepare_defs descriptor_defs)

lemma prepare_ScaledBias:
  "ScaledEpilogueBias_prepare_args a b bias =
     Inr (EVT_Arguments [OrScalar_Arguments (data_ptr a) (numel a \<noteq> 1),
                         EVT_Arguments [OrScalar_Arguments (data_ptr b) (numel b \<noteq> 1)],
                         Broadcast_Arguments (data_ptr bias)])"
  by (simp add: prepare_defs descriptor_defs)

lemma prepare_ScaledLs:
  "ScaledEpilogueLs_prepare_args a b ls =
     Inr (EVT_Arguments [Broadcast_Arguments (data_ptr ls),
            EVT_Arguments [OrScalar_Arguments (data_ptr a) (numel a \<noteq> 1),
                           EVT_Arguments [OrScalar_Arguments (data_ptr b) (numel b \<noteq> 1)]]])"
  by (simp add: prepare_defs descriptor_defs)

lemma prepare_ScaledBiasLs:
  "ScaledEpilogueBiasLs_prepare_args a b bias ls =
     Inr (EVT_Arguments [Broadcast_Arguments (data_ptr ls),
            EVT_Arguments [OrScalar_Arguments (data_ptr a) (numel a \<noteq> 1),
                           EVT_Arguments [OrScalar_Arguments (data_ptr b) (numel b \<noteq> 1)],
                           Broadcast_Arguments (data_ptr bias)]])"
  by (simp add: prepare_defs descriptor_defs)

lemmas prepared = prepare_Scaled prepare_ScaledBias prepare_ScaledLs prepare_ScaledBiasLs

text \<open>
  What a launch of each epilogue returns at a coordinate, in terms of the operand entries
  it reads: an invalid read of any operand makes the result invalid.
\<close>

lemma launch_Scaled:
  "launch cvt h ScaledEpilogue_EVTCompute (ScaledEpilogue_prepare_args a b) acc (m, n, l) =
     (case scale_entry h a m of None \<Rightarrow> None | Some sA \<Rightarrow>
     (case scale_entry h b n of None \<Rightarrow> None | Some sB \<Rightarrow>
        Some (cvt ElementD Float (sA * (sB * cvt Float ElementAcc acc)))))"
  by (simp add: launch_def prepared tree_defs descriptor_defs convert_def scale_entry_def
      split: option.splits)

lemma launch_ScaledBias:
  "launch cvt h ScaledEpilogueBias_EVTCompute (ScaledEpilogueBias_prepare_args a b bias)
     acc (m, n, l) =
     (case scale_entry h a m of None \<Rightarrow> None | Some sA \<Rightarrow>
     (case scale_entry h b n of None \<Rightarrow> None | Some sB \<Rightarrow>
     (case vector_entry h bias n of None \<Rightarrow> None | Some bv \<Rightarrow>
        Some (cvt ElementD Float
               (sA * (sB * cvt Float ElementAcc acc) + cvt Float ElementD bv)))))"
  by (simp add: launch_def prepared tree_defs descriptor_defs convert_def scale_entry_def
      vector_entry_def split: option.splits)

lemma launch_ScaledLs:
  "launch cvt h ScaledEpilogueLs_EVTCompute (ScaledEpilogueLs_prepare_args a b ls)
     acc (m, n, l) =
     (case vector_entry h ls n of None \<Rightarrow> None | Some L \<Rightarrow>
     (case scale_entry h a m of None \<Rightarrow> None | Some sA \<Rightarrow>
     (case scale_entry h b n of None \<Rightarrow> None | Some sB \<Rightarrow>
        Some (cvt ElementD Float
               (cvt Float ElementD L * (sA * (sB * cvt Float ElementAcc acc)))))))"
  by (simp add: launch_def prepared tree_defs descriptor_defs convert_def scale_entry_def
      vector_entry_def split: option.splits)

lemma launch_ScaledBiasLs:
  "launch cvt h ScaledEpilogueBiasLs_EVTCompute
     (ScaledEpilogueBiasLs_prepare_args a b bias ls) acc (m, n, l) =
     (case vector_entry h ls n of None \<Rightarrow> None | Some L \<Rightarrow>
     (case scale_entry h a m of None \<Rightarrow> None | Some sA \<Rightarrow>
     (case scale_entry h b n of None \<Rightarrow> None | Some sB \<Rightarrow>
     (case vector_entry h bias n of None \<Rightarrow> None | Some bv \<Rightarrow>
        Some (cvt ElementD Float
               (cvt Float ElementD L
                * (sA * (sB * cvt Float ElementAcc acc) + cvt Float ElementD bv)))))))"
  by (simp add: launch_def prepared tree_defs descriptor_defs convert_def scale_entry_def
      vector_entry_def split: option.splits)

text \<open>A tile is evaluated coordinate by coordinate.\<close>

lemma evaluate_epilogue_cong:
  assumes "\<And>m n. m < length tile \<Longrightarrow> n < length (tile ! m) \<Longrightarrow>
             visit cvt h (tile ! m ! n) (m, n, l) t1 a1
             = visit cvt' h' (tile ! m ! n) (m, n, l) t2 a2"
  shows "evaluate_epilogue cvt h t1 a1 l tile = evaluate_epilogue cvt' h' t2 a2 l tile"
  using assms by (simp add: evaluate_epilogue_def)

lemma evaluate_epilogue_pointwise:
  assumes "\<And>m n. m < length tile \<Longrightarrow> n < length (tile ! m) \<Longrightarrow>
             visit cvt h (tile ! m ! n) (m, n, l) t a = Some (f (tile ! m ! n))"
  shows "evaluate_epilogue cvt h t a l tile = map (map (\<lambda>x. Some (f x))) tile"
proof -
  have row: "map (\<lambda>n. visit cvt h (tile ! m ! n) (m, n, l) t a) [0..<length (tile ! m)]
             = map (\<lambda>x. Some (f x)) (tile ! m)" if "m < length tile" for m
    using that assms by (intro nth_equalityI) simp_all
  show ?thesis
    unfolding evaluate_epilogue_def using row by (intro nth_equalityI) simp_all
qed

lemma launch_tile_pointwise:
  assumes "prepared = Inr blk"
    and "\<And>m n. m < length tile \<Longrightarrow> n < length (tile ! m) \<Longrightarrow>
           launch cvt h tree prepared (tile ! m ! n) (m, n, l) = Some (f (tile ! m ! n))"
  shows "launch_tile cvt h tree prepared l tile = Inr (map (map (\<lambda>x. Some (f x))) tile)"
  using assms by (simp add: launch_tile_def launch_def evaluate_epilogue_pointwise)

lemma launch_tile_cong:
  assumes "p1 = Inr blk1" and "p2 = Inr blk2"
    and "\<And>m n. m < length tile \<Longrightarrow> n < length (tile ! m) \<Longrightarrow>
           launch cvt h t1 p1 (tile ! m ! n) (m, n, l)
           = launch cvt h' t2 p2 (tile ! m ! n) (m, n, l)"
  shows "launch_tile cvt h t1 p1 l tile = launch_tile cvt h' t2 p2 l tile"
proof -
  have "evaluate_epilogue cvt h t1 blk1 l tile = evaluate_epilogue cvt h' t2 blk2 l tile"
    using assms by (intro evaluate_epilogue_cong) (simp add: launch_def)
  then show ?thesis using assms(1,2) by (simp add: launch_tile_def)
qed

lemma column_in_range:
  assumes "\<forall>row\<in>set tile. length row \<le> k"
    and "m < length tile" and "n < length (tile ! m)"
  shows "n < k"
  using assms by (meson nth_mem order_less_le_trans)

text \<open>The neutral operands of the concrete scenario.\<close>

lemma example_zeros_entries:
  "\<forall>n<numel example_zeros. vector_entry example_heap example_zeros n = Some 0"
  by (simp add: vector_entry_def example_defs less_Suc_eq numeral_2_eq_2)

lemma example_ones_entries:
  "\<forall>n<numel example_ones. vector_entry example_heap example_ones n = Some 1"
  by (simp add: vector_entry_def example_defs less_Suc_eq numeral_2_eq_2)

lemma example_tile_rows:
  "\<forall>row\<in>set example_tile. length row \<le> numel example_zeros"
  "\<forall>row\<in>set example_tile. length row \<le> numel example_ones"
  by (simp_all add: example_defs)

subsection \<open>Order of composition\<close>

text \<open>
  Claim C1, as stated: the value of ScaledBiasLs, with the bias inside the outer
  multiplication, differs from \<open>L * (scaleA * (scaleB * Acc)) + bias\<close> whenever the bias is
  not zero and the multiplier is not one. Under a narrowing output type it need not: at
  \<open>Acc = 8\<close>, \<open>scaleA = 3\<close>, \<open>scaleB = 100\<close>, \<open>bias = 1\<close>, \<open>L = 2\<close> the epilogue computes 4802
  and the other formula 4801, and both are written as 4800.
\<close>

theorem narrowing_output_merges_both_formulas:
  "launch narrowing example_heap ScaledEpilogueBiasLs_EVTCompute
     (ScaledEpilogueBiasLs_prepare_args example_a_scales example_b_scales example_bias
        example_twos) 8 (1, 1, 0)
   = Some 4800
   \<and> Some (narrowing ElementD Float
            (narrowing Float ElementD 2 * (3 * (100 * narrowing Float ElementAcc 8))
             + narrowing Float ElementD 1))
     = Some 4800
   \<and> scale_entry example_heap example_a_scales 1 = Some 3
   \<and> scale_entry example_heap example_b_scales 1 = Some 100
   \<and> vector_entry example_heap example_bias 1 = Some 1
   \<and> vector_entry example_heap example_twos 1 = Some 2
   \<and> narrowing Float ElementD 1 \<noteq> 0
   \<and> narrowing Float ElementD 2 \<noteq> 1"
  by (simp add: launch_ScaledBiasLs scale_entry_def vector_entry_def example_defs
      narrowing_def nearest_step_def)

text \<open>
  Claim C1, amended. In the ScaledBiasLs epilogue the value written at every coordinate
  is \<open>D = L * (scaleA * (scaleB * Acc) + bias)\<close>, whatever the arithmetic and the
  conversions are: the B-scale meets the accumulator first, the A-scale multiplies that
  product from the left, the bias is added, and the multiplier \<open>L\<close> is applied last, so
  the bias is inside the outer multiplication. Whenever the bias is not zero and the
  multiplier is not one, this is not the value \<open>L * (scaleA * (scaleB * Acc)) + bias\<close>,
  provided the arithmetic is exact and the conversion to the output type keeps different
  values apart.
\<close>

theorem ScaledEpilogueBiasLs_bias_inside_multiplier:
  fixes cvt :: "element \<Rightarrow> element \<Rightarrow> 'a::{times,plus,zero} \<Rightarrow> 'a"
    and cvt' :: "element \<Rightarrow> element \<Rightarrow> 'b::ring_1_no_zero_divisors \<Rightarrow> 'b"
  shows "(scale_entry h a_scales m = Some sA \<and> scale_entry h b_scales n = Some sB
          \<and> vector_entry h bias n = Some bv \<and> vector_entry h ls n = Some L \<longrightarrow>
            launch cvt h ScaledEpilogueBiasLs_EVTCompute
              (ScaledEpilogueBiasLs_prepare_args a_scales b_scales bias ls) acc (m, n, l)
            = Some (cvt ElementD Float
                     (cvt Float ElementD L
                      * (sA * (sB * cvt Float ElementAcc acc) + cvt Float ElementD bv))))
       \<and> (scale_entry h' a_scales m = Some sA' \<and> scale_entry h' b_scales n = Some sB'
          \<and> vector_entry h' bias n = Some bv' \<and> vector_entry h' ls n = Some L'
          \<and> inj (cvt' ElementD Float) \<and> cvt' Float ElementD bv' \<noteq> 0
          \<and> cvt' Float ElementD L' \<noteq> 1 \<longrightarrow>
            launch cvt' h' ScaledEpilogueBiasLs_EVTCompute
              (ScaledEpilogueBiasLs_prepare_args a_scales b_scales bias ls) acc' (m, n, l)
            \<noteq> Some (cvt' ElementD Float
                      (cvt' Float ElementD L' * (sA' * (sB' * cvt' Float ElementAcc acc'))
                       + cvt' Float ElementD bv')))"
proof (intro conjI impI)
  assume "scale_entry h a_scales m = Some sA \<and> scale_entry h b_scales n = Some sB
          \<and> vector_entry h bias n = Some bv \<and> vector_entry h ls n = Some L"
  then show "launch cvt h ScaledEpilogueBiasLs_EVTCompute
              (ScaledEpilogueBiasLs_prepare_args a_scales b_scales bias ls) acc (m, n, l)
            = Some (cvt ElementD Float
                     (cvt Float ElementD L
                      * (sA * (sB * cvt Float ElementAcc acc) + cvt Float ElementD bv)))"
    by (simp add: launch_ScaledBiasLs)
next
  let ?L = "cvt' Float ElementD L'" and ?b = "cvt' Float ElementD bv'"
  let ?x = "sA' * (sB' * cvt' Float ElementAcc acc')"
  assume A: "scale_entry h' a_scales m = Some sA' \<and> scale_entry h' b_scales n = Some sB'
          \<and> vector_entry h' bias n = Some bv' \<and> vector_entry h' ls n = Some L'
          \<and> inj (cvt' ElementD Float) \<and> cvt' Float ElementD bv' \<noteq> 0
          \<and> cvt' Float ElementD L' \<noteq> 1"
  have differ: "?L * (?x + ?b) \<noteq> ?L * ?x + ?b"
  proof
    assume "?L * (?x + ?b) = ?L * ?x + ?b"
    then have "?L * ?b = ?b" by (simp add: distrib_left)
    with A show False by simp
  qed
  from A have "launch cvt' h' ScaledEpilogueBiasLs_EVTCompute
              (ScaledEpilogueBiasLs_prepare_args a_scales b_scales bias ls) acc' (m, n, l)
            = Some (cvt' ElementD Float (?L * (?x + ?b)))"
    by (simp add: launch_ScaledBiasLs)
  moreover from A differ have "cvt' ElementD Float (?L * (?x + ?b))
                      \<noteq> cvt' ElementD Float (?L * ?x + ?b)"
    by (auto dest: injD)
  ultimately show "launch cvt' h' ScaledEpilogueBiasLs_EVTCompute
              (ScaledEpilogueBiasLs_prepare_args a_scales b_scales bias ls) acc' (m, n, l)
            \<noteq> Some (cvt' ElementD Float (?L * ?x + ?b))"
    by simp
qed

theorem ScaledEpilogueBiasLs_bias_inside_multiplier_witness:
  "launch exact example_heap ScaledEpilogueBiasLs_EVTCompute
     (ScaledEpilogueBiasLs_prepare_args example_a_scales example_b_scales example_bias
        example_ls) 1 (0, 0, 0) = Some 42
   \<and> launch exact example_heap ScaledEpilogueBiasLs_EVTCompute
     (ScaledEpilogueBiasLs_prepare_args example_a_scales example_b_scales example_bias
        example_ls) 1 (0, 0, 0) \<noteq> Some 41"
  using ScaledEpilogueBiasLs_bias_inside_multiplier
          [where h = example_heap and h' = example_heap
             and a_scales = example_a_scales and b_scales = example_b_scales
             and bias = example_bias and ls = example_ls
             and m = 0 and n = 0 and l = 0
             and sA = 2 and sB = 10 and bv = 1 and L = 2
             and sA' = 2 and sB' = 10 and bv' = 1 and L' = 2
             and cvt = exact and cvt' = exact and acc = 1 and acc' = 1]
  by (simp add: scale_entry_def vector_entry_def example_defs inj_def)

subsection \<open>The formulas of Scaled and ScaledBias\<close>

text \<open>
  Claim C5. The Scaled epilogue computes \<open>D = scaleA * (scaleB * Acc)\<close> at every output
  coordinate, the accumulator converted to \<open>float\<close> first and the product to the output
  type last. On the accumulator tile \<open>[[1,2],[3,4]]\<close> with per-row scaleA \<open>[2,3]\<close> and
  per-column scaleB \<open>[10,100]\<close> the output is exactly \<open>[[20,400],[90,1200]]\<close>.
\<close>

theorem ScaledEpilogue_formula_and_scenario:
  assumes "scale_entry h a_scales m = Some sA"
    and "scale_entry h b_scales n = Some sB"
  shows "launch cvt h ScaledEpilogue_EVTCompute
           (ScaledEpilogue_prepare_args a_scales b_scales) acc (m, n, l)
         = Some (cvt ElementD Float (sA * (sB * cvt Float ElementAcc acc)))
       \<and> launch_tile exact example_heap ScaledEpilogue_EVTCompute
           (ScaledEpilogue_prepare_args example_a_scales example_b_scales) 0 example_tile
         = Inr [[Some 20, Some 400], [Some 90, Some 1200]]"
proof
  show "launch cvt h ScaledEpilogue_EVTCompute
           (ScaledEpilogue_prepare_args a_scales b_scales) acc (m, n, l)
         = Some (cvt ElementD Float (sA * (sB * cvt Float ElementAcc acc)))"
    using assms by (simp add: launch_Scaled)
  show "launch_tile exact example_heap ScaledEpilogue_EVTCompute
           (ScaledEpilogue_prepare_args example_a_scales example_b_scales) 0 example_tile
         = Inr [[Some 20, Some 400], [Some 90, Some 1200]]"
    by (simp add: launch_tile_def prepare_Scaled evaluate_epilogue_def tree_defs
        descriptor_defs convert_def example_defs upt_rec)
qed

theorem ScaledEpilogue_formula_and_scenario_witness:
  "launch exact example_heap ScaledEpilogue_EVTCompute
     (ScaledEpilogue_prepare_args example_a_scales example_b_scales) 4 (1, 1, 0)
   = Some 1200"
  using ScaledEpilogue_formula_and_scenario
          [of example_heap example_a_scales 1 3 example_b_scales 1 100 exact 4 0]
  by (simp add: scale_entry_def example_defs)

text \<open>
  Claim C9. The ScaledBias epilogue computes \<open>D = scaleA * (scaleB * Acc) + bias\<close> at every
  output coordinate. On the accumulator tile \<open>[[1,2],[3,4]]\<close> with per-row scaleA
  \<open>[2,3]\<close>, per-column scaleB \<open>[10,100]\<close> and per-column bias \<open>[1,1]\<close> the output is
  exactly \<open>[[21,401],[91,1201]]\<close>.
\<close>

theorem ScaledEpilogueBias_formula_and_scenario:
  assumes "scale_entry h a_scales m = Some sA"
    and "scale_entry h b_scales n = Some sB"
    and "vector_entry h bias n = Some bv"
  shows "launch cvt h ScaledEpilogueBias_EVTCompute
           (ScaledEpilogueBias_prepare_args a_scales b_scales bias) acc (m, n, l)
         = Some (cvt ElementD Float
                  (sA * (sB * cvt Float ElementAcc acc) + cvt Float ElementD bv))
       \<and> launch_tile exact example_heap ScaledEpilogueBias_EVTCompute
           (ScaledEpilogueBias_prepare_args example_a_scales example_b_scales example_bias)
           0 example_tile
         = Inr [[Some 21, Some 401], [Some 91, Some 1201]]"
proof
  show "launch cvt h ScaledEpilogueBias_EVTCompute
           (ScaledEpilogueBias_prepare_args a_scales b_scales bias) acc (m, n, l)
         = Some (cvt ElementD Float
                  (sA * (sB * cvt Float ElementAcc acc) + cvt Float ElementD bv))"
    using assms by (simp add: launch_ScaledBias)
  show "launch_tile exact example_heap ScaledEpilogueBias_EVTCompute
           (ScaledEpilogueBias_prepare_args example_a_scales example_b_scales example_bias)
           0 example_tile
         = Inr [[Some 21, Some 401], [Some 91, Some 1201]]"
    by (simp add: launch_tile_def prepare_ScaledBias evaluate_epilogue_def tree_defs
        descriptor_defs convert_def example_defs upt_rec)
qed

theorem ScaledEpilogueBias_formula_and_scenario_witness:
  "launch exact example_heap ScaledEpilogueBias_EVTCompute
     (ScaledEpilogueBias_prepare_args example_a_scales example_b_scales example_bias)
     3 (1, 0, 0)
   = Some 91"
  using ScaledEpilogueBias_formula_and_scenario
          [of example_heap example_a_scales 1 3 example_b_scales 0 10 example_bias 1 exact 3 0]
  by (simp add: scale_entry_def vector_entry_def example_defs)

subsection \<open>Scalar and vector mode of the scale operands\<close>

text \<open>
  Claim C2. For both scale operands, in every one of the four epilogues, argument
  construction looks at the element count of the array: exactly one element selects
  scalar mode, in which the single value is read at every output position whatever the
  coordinate; any other count selects vector mode. In both modes the argument block
  holds the data pointer of the array itself: nothing is copied.
\<close>

theorem scale_mode_from_element_count:
  fixes h :: "'a::{times,plus,zero} heap"
  shows "args_from_tensor ScaleA Float t = Inr (OrScalar_Arguments (data_ptr t) (numel t \<noteq> 1))
   \<and> args_from_tensor ScaleB Float t = Inr (OrScalar_Arguments (data_ptr t) (numel t \<noteq> 1))
   \<and> visit cvt h acc (m, n, l) ScaleA (OrScalar_Arguments (data_ptr t) (numel t \<noteq> 1))
       = (if numel t = 1 then h (data_ptr t) else h (data_ptr t + m))
   \<and> visit cvt h acc (m, n, l) ScaleB (OrScalar_Arguments (data_ptr t) (numel t \<noteq> 1))
       = (if numel t = 1 then h (data_ptr t) else h (data_ptr t + n))
   \<and> ScaledEpilogue_prepare_args a b =
       Inr (EVT_Arguments [OrScalar_Arguments (data_ptr a) (numel a \<noteq> 1),
              EVT_Arguments [OrScalar_Arguments (data_ptr b) (numel b \<noteq> 1)]])
   \<and> ScaledEpilogueBias_prepare_args a b bias =
       Inr (EVT_Arguments [OrScalar_Arguments (data_ptr a) (numel a \<noteq> 1),
              EVT_Arguments [OrScalar_Arguments (data_ptr b) (numel b \<noteq> 1)],
              Broadcast_Arguments (data_ptr bias)])
   \<and> ScaledEpilogueLs_prepare_args a b ls =
       Inr (EVT_Arguments [Broadcast_Arguments (data_ptr ls),
              EVT_Arguments [OrScalar_Arguments (data_ptr a) (numel a \<noteq> 1),
                EVT_Arguments [OrScalar_Arguments (data_ptr b) (numel b \<noteq> 1)]]])
   \<and> ScaledEpilogueBiasLs_prepare_args a b bias ls =
       Inr (EVT_Arguments [Broadcast_Arguments (data_ptr ls),
              EVT_Arguments [OrScalar_Arguments (data_ptr a) (numel a \<noteq> 1),
                EVT_Arguments [OrScalar_Arguments (data_ptr b) (numel b \<noteq> 1)],
                Broadcast_Arguments (data_ptr bias)]])"
  by (simp add: prepared) (simp add: args_from_tensor_def descriptor_defs)

theorem scale_mode_from_element_count_witness:
  "args_from_tensor ScaleA Float example_scalar = Inr (OrScalar_Arguments 500 False)
   \<and> visit exact example_heap 4 (1, 1, 0) ScaleA (OrScalar_Arguments 500 False) = Some 5
   \<and> args_from_tensor ScaleB Float example_b_scales = Inr (OrScalar_Arguments 200 True)
   \<and> visit exact example_heap 4 (1, 1, 0) ScaleB (OrScalar_Arguments 200 True) = Some 100"
  using scale_mode_from_element_count
          [of example_scalar exact example_heap 4 1 1 0 example_scalar example_scalar
              example_bias example_ls]
        scale_mode_from_element_count
          [of example_b_scales exact example_heap 4 1 1 0 example_scalar example_scalar
              example_bias example_ls]
  by (simp add: example_defs)

text \<open>
  Claim C10. For the scale operands, every element count other than exactly one selects
  vector mode, the count zero included: the data pointer of an empty scale tensor is
  captured with the vector flag set, and the operand is then read by index like any
  other vector, not treated as absent or as a scalar.
\<close>

theorem empty_scale_is_vector_mode:
  fixes h :: "'a::{times,plus,zero} heap"
  assumes "numel t \<noteq> 1"
  shows "args_from_tensor ScaleA Float t = Inr (OrScalar_Arguments (data_ptr t) True)
   \<and> args_from_tensor ScaleB Float t = Inr (OrScalar_Arguments (data_ptr t) True)
   \<and> args_from_tensor ScaleA Float (t\<lparr>numel := 0\<rparr>) = Inr (OrScalar_Arguments (data_ptr t) True)
   \<and> args_from_tensor ScaleB Float (t\<lparr>numel := 0\<rparr>) = Inr (OrScalar_Arguments (data_ptr t) True)
   \<and> visit cvt h acc (m, n, l) ScaleA (OrScalar_Arguments (data_ptr t) True) = h (data_ptr t + m)
   \<and> visit cvt h acc (m, n, l) ScaleB (OrScalar_Arguments (data_ptr t) True) = h (data_ptr t + n)"
  using assms by (simp add: args_from_tensor_def descriptor_defs)

theorem empty_scale_is_vector_mode_witness:
  "args_from_tensor ScaleA Float \<lparr>data_ptr = 900, numel = 0\<rparr>
     = Inr (OrScalar_Arguments 900 True)
   \<and> args_from_tensor ScaleB Float \<lparr>data_ptr = 900, numel = 0\<rparr>
     = Inr (OrScalar_Arguments 900 True)
   \<and> visit exact example_heap 1 (0, 0, 0) ScaleA (OrScalar_Arguments 900 True) = None"
  using empty_scale_is_vector_mode [of "\<lparr>data_ptr = 900, numel = 0\<rparr>" exact example_heap 1 0 0 0]
  by (simp add: example_defs)

subsection \<open>The bias and multiplier operands\<close>

text \<open>
  Claim C3, as stated: a one-element array supplied for the bias or the multiplier is
  rejected when the arguments are built. It is not: \<open>ScaledEpilogueBias::prepare_args\<close>
  given a bias of one element returns an argument block, with the pointer of that array
  bound as a vector; the launch then reads the bias by column, finds the single value in
  column 0 and makes an invalid read in column 1.
\<close>

theorem one_element_bias_is_accepted:
  "ScaledEpilogueBias_prepare_args example_a_scales example_b_scales example_scalar
     = Inr (EVT_Arguments [OrScalar_Arguments 100 True,
                           EVT_Arguments [OrScalar_Arguments 200 True],
                           Broadcast_Arguments 500])
   \<and> ScaledEpilogueBias_prepare_args example_a_scales example_b_scales example_scalar
     \<noteq> Inl Static_Assert_Failed
   \<and> launch exact example_heap ScaledEpilogueBias_EVTCompute
       (ScaledEpilogueBias_prepare_args example_a_scales example_b_scales example_scalar)
       1 (0, 0, 0) = Some 25
   \<and> launch exact example_heap ScaledEpilogueBias_EVTCompute
       (ScaledEpilogueBias_prepare_args example_a_scales example_b_scales example_scalar)
       2 (0, 1, 0) = None"
  by (simp add: launch_def prepare_ScaledBias tree_defs descriptor_defs convert_def
      example_defs)

text \<open>
  Claim C3, amended. For every epilogue with a bias or a multiplier, argument
  construction does not look at the element count of that operand: an array of a single
  element is accepted like any other and bound as a per-column vector, the block holding
  its data pointer and no scalar flag, and the operand is read at index \<open>n\<close> for output
  column \<open>n\<close>: these two operands have no scalar mode.
\<close>

theorem required_vector_operand_is_bound_unchecked:
  fixes h :: "'a::{times,plus,zero} heap"
  shows "args_from_tensor Bias ElementD t = Inr (Broadcast_Arguments (data_ptr t))
   \<and> args_from_tensor Ls ElementD t = Inr (Broadcast_Arguments (data_ptr t))
   \<and> args_from_tensor Bias ElementD (t\<lparr>numel := 1\<rparr>) = Inr (Broadcast_Arguments (data_ptr t))
   \<and> args_from_tensor Ls ElementD (t\<lparr>numel := 1\<rparr>) = Inr (Broadcast_Arguments (data_ptr t))
   \<and> visit cvt h acc (m, n, l) Bias (Broadcast_Arguments (data_ptr t)) = h (data_ptr t + n)
   \<and> visit cvt h acc (m, n, l) Ls (Broadcast_Arguments (data_ptr t)) = h (data_ptr t + n)
   \<and> ScaledEpilogueBias_prepare_args a b bias =
       Inr (EVT_Arguments [OrScalar_Arguments (data_ptr a) (numel a \<noteq> 1),
              EVT_Arguments [OrScalar_Arguments (data_ptr b) (numel b \<noteq> 1)],
              Broadcast_Arguments (data_ptr bias)])
   \<and> ScaledEpilogueLs_prepare_args a b ls =
       Inr (EVT_Arguments [Broadcast_Arguments (data_ptr ls),
              EVT_Arguments [OrScalar_Arguments (data_ptr a) (numel a \<noteq> 1),
                EVT_Arguments [OrScalar_Arguments (data_ptr b) (numel b \<noteq> 1)]]])
   \<and> ScaledEpilogueBiasLs_prepare_args a b bias ls =
       Inr (EVT_Arguments [Broadcast_Arguments (data_ptr ls),
              EVT_Arguments [OrScalar_Arguments (data_ptr a) (numel a \<noteq> 1),
                EVT_Arguments [OrScalar_Arguments (data_ptr b) (numel b \<noteq> 1)],
                Broadcast_Arguments (data_ptr bias)]])"
  by (simp add: prepared) (simp add: args_from_tensor_def descriptor_defs)

theorem required_vector_operand_is_bound_unchecked_witness:
  "args_from_tensor Bias ElementD example_scalar = Inr (Broadcast_Arguments 500)
   \<and> args_from_tensor Ls ElementD example_scalar = Inr (Broadcast_Arguments 500)
   \<and> visit exact example_heap 2 (0, 1, 0) Bias (Broadcast_Arguments 500) = None
   \<and> ScaledEpilogueLs_prepare_args example_a_scales example_b_scales example_scalar
     = Inr (EVT_Arguments [Broadcast_Arguments 500,
              EVT_Arguments [OrScalar_Arguments 100 True,
                EVT_Arguments [OrScalar_Arguments 200 True]]])"
  using required_vector_operand_is_bound_unchecked
          [of example_scalar exact example_heap 2 0 1 0 example_a_scales example_b_scales
              example_scalar example_scalar]
  by (simp add: example_defs)

subsection \<open>Determinism of argument construction\<close>

text \<open>A call returns the block of the function and the world it was given.\<close>

lemma args_from_tensor_call:
  "args_from_tensor_call Descriptor T tensor w = (args_from_tensor Descriptor T tensor, w)"
  by (simp add: args_from_tensor_call_def args_from_tensor_def data_ptr_call_def
      numel_call_def)

lemma ScaledEpilogue_call:
  "ScaledEpilogue_prepare_args_call a b w = (ScaledEpilogue_prepare_args a b, w)"
  by (simp add: ScaledEpilogue_prepare_args_call_def ScaledEpilogue_prepare_args_def
      args_from_tensor_call split: sum.splits)

lemma ScaledEpilogueBias_call:
  "ScaledEpilogueBias_prepare_args_call a b bias w
   = (ScaledEpilogueBias_prepare_args a b bias, w)"
  by (simp add: ScaledEpilogueBias_prepare_args_call_def ScaledEpilogueBias_prepare_args_def
      args_from_tensor_call split: sum.splits)

lemma ScaledEpilogueLs_call:
  "ScaledEpilogueLs_prepare_args_call a b ls w = (ScaledEpilogueLs_prepare_args a b ls, w)"
  by (simp add: ScaledEpilogueLs_prepare_args_call_def ScaledEpilogueLs_prepare_args_def
      args_from_tensor_call split: sum.splits)

lemma ScaledEpilogueBiasLs_call:
  "ScaledEpilogueBiasLs_prepare_args_call a b bias ls w
   = (ScaledEpilogueBiasLs_prepare_args a b bias ls, w)"
  by (simp add: ScaledEpilogueBiasLs_prepare_args_call_def
      ScaledEpilogueBiasLs_prepare_args_def args_from_tensor_call split: sum.splits)

lemmas calls = ScaledEpilogue_call ScaledEpilogueBias_call ScaledEpilogueLs_call
  ScaledEpilogueBiasLs_call

text \<open>
  Claim C8. In all four epilogues \<open>prepare_args\<close> is deterministic and free of side
  effects. Two calls whose operand handles agree on data pointer and element count
  return the same argument block, in whatever worlds they are made and whatever else
  the handles carry: the builder reads nothing but pointers and counts, and no state
  reaches it from an earlier call. A call leaves the world as it found it, the memory
  (no operand data is copied) and the allocated addresses (no operand storage is
  allocated) alike; the block holds exactly the data pointers of the handles. A second
  call made in the world the first one left returns the same block again.
\<close>

theorem prepare_args_deterministic_and_effect_free:
  fixes a :: "'z tensor_scheme" and a' :: "'y tensor_scheme"
    and b :: "'x tensor_scheme" and b' :: "'w tensor_scheme"
    and bias :: "'v tensor_scheme" and bias' :: "'u tensor_scheme"
    and ls :: "'t tensor_scheme" and ls' :: "'s tensor_scheme"
    and w :: "'a world" and w' :: "'a world"
  assumes "data_ptr a = data_ptr a'" and "numel a = numel a'"
    and "data_ptr b = data_ptr b'" and "numel b = numel b'"
    and "data_ptr bias = data_ptr bias'" and "numel bias = numel bias'"
    and "data_ptr ls = data_ptr ls'" and "numel ls = numel ls'"
  shows "fst (ScaledEpilogue_prepare_args_call a b w)
         = fst (ScaledEpilogue_prepare_args_call a' b' w')
   \<and> fst (ScaledEpilogueBias_prepare_args_call a b bias w)
     = fst (ScaledEpilogueBias_prepare_args_call a' b' bias' w')
   \<and> fst (ScaledEpilogueLs_prepare_args_call a b ls w)
     = fst (ScaledEpilogueLs_prepare_args_call a' b' ls' w')
   \<and> fst (ScaledEpilogueBiasLs_prepare_args_call a b bias ls w)
     = fst (ScaledEpilogueBiasLs_prepare_args_call a' b' bias' ls' w')
   \<and> snd (ScaledEpilogue_prepare_args_call a b w) = w
   \<and> snd (ScaledEpilogueBias_prepare_args_call a b bias w) = w
   \<and> snd (ScaledEpilogueLs_prepare_args_call a b ls w) = w
   \<and> snd (ScaledEpilogueBiasLs_prepare_args_call a b bias ls w) = w
   \<and> (case ScaledEpilogue_prepare_args_call a b w of
         (r1, w1) \<Rightarrow> ScaledEpilogue_prepare_args_call a b w1 = (r1, w))
   \<and> (case ScaledEpilogueBias_prepare_args_call a b bias w of
         (r1, w1) \<Rightarrow> ScaledEpilogueBias_prepare_args_call a b bias w1 = (r1, w))
   \<and> (case ScaledEpilogueLs_prepare_args_call a b ls w of
         (r1, w1) \<Rightarrow> ScaledEpilogueLs_prepare_args_call a b ls w1 = (r1, w))
   \<and> (case ScaledEpilogueBiasLs_prepare_args_call a b bias ls w of
         (r1, w1) \<Rightarrow> ScaledEpilogueBiasLs_prepare_args_call a b bias ls w1 = (r1, w))
   \<and> (case fst (ScaledEpilogue_prepare_args_call a b w) of Inl e \<Rightarrow> False
       | Inr blk \<Rightarrow> pointers blk = {data_ptr a, data_ptr b})
   \<and> (case fst (ScaledEpilogueBias_prepare_args_call a b bias w) of Inl e \<Rightarrow> False
       | Inr blk \<Rightarrow> pointers blk = {data_ptr a, data_ptr b, data_ptr bias})
   \<and> (case fst (ScaledEpilogueLs_prepare_args_call a b ls w) of Inl e \<Rightarrow> False
       | Inr blk \<Rightarrow> pointers blk = {data_ptr a, data_ptr b, data_ptr ls})
   \<and> (case fst (ScaledEpilogueBiasLs_prepare_args_call a b bias ls w) of Inl e \<Rightarrow> False
       | Inr blk \<Rightarrow> pointers blk = {data_ptr a, data_ptr b, data_ptr bias, data_ptr ls})"
  using assms by (auto simp add: calls prepared)

theorem prepare_args_deterministic_and_effect_free_witness:
  "fst (ScaledEpilogueBiasLs_prepare_args_call
     \<lparr>data_ptr = 100, numel = 2, \<dots> = True\<rparr> \<lparr>data_ptr = 200, numel = 2, \<dots> = True\<rparr>
     \<lparr>data_ptr = 300, numel = 2, \<dots> = True\<rparr> \<lparr>data_ptr = 400, numel = 2, \<dots> = True\<rparr>
     example_world)
   = fst (ScaledEpilogueBiasLs_prepare_args_call
     \<lparr>data_ptr = 100, numel = 2, \<dots> = False\<rparr> \<lparr>data_ptr = 200, numel = 2, \<dots> = ''f16''\<rparr>
     example_bias example_ls empty_world)
   \<and> ScaledEpilogueBiasLs_prepare_args_call
       \<lparr>data_ptr = 100, numel = 2, \<dots> = True\<rparr> \<lparr>data_ptr = 200, numel = 2, \<dots> = True\<rparr>
       \<lparr>data_ptr = 300, numel = 2, \<dots> = True\<rparr> \<lparr>data_ptr = 400, numel = 2, \<dots> = True\<rparr>
       example_world
     = (Inr (EVT_Arguments [Broadcast_Arguments 400,
               EVT_Arguments [OrScalar_Arguments 100 True,
                 EVT_Arguments [OrScalar_Arguments 200 True],
                 Broadcast_Arguments 300]]),
        example_world)"
proof -
  have block: "ScaledEpilogueBiasLs_prepare_args
       \<lparr>data_ptr = 100, numel = 2, \<dots> = True\<rparr> \<lparr>data_ptr = 200, numel = 2, \<dots> = True\<rparr>
       \<lparr>data_ptr = 300, numel = 2, \<dots> = True\<rparr> \<lparr>data_ptr = 400, numel = 2, \<dots> = True\<rparr>
     = Inr (EVT_Arguments [Broadcast_Arguments 400,
               EVT_Arguments [OrScalar_Arguments 100 True,
                 EVT_Arguments [OrScalar_Arguments 200 True],
                 Broadcast_Arguments 300]])"
    by (simp add: prepare_ScaledBiasLs)
  show ?thesis
    using prepare_args_deterministic_and_effect_free
            [of "\<lparr>data_ptr = 100, numel = 2, \<dots> = True\<rparr>"
                "\<lparr>data_ptr = 100, numel = 2, \<dots> = False\<rparr>"
                "\<lparr>data_ptr = 200, numel = 2, \<dots> = True\<rparr>"
                "\<lparr>data_ptr = 200, numel = 2, \<dots> = ''f16''\<rparr>"
                "\<lparr>data_ptr = 300, numel = 2, \<dots> = True\<rparr>" example_bias
                "\<lparr>data_ptr = 400, numel = 2, \<dots> = True\<rparr>" example_ls
                example_world empty_world]
          block
    by (simp add: example_defs ScaledEpilogueBiasLs_call)
qed

subsection \<open>Neutral operands\<close>

text \<open>
  Claim C7. For every accumulator tile and every pair of scale operands, ScaledBias with
  an all-zero bias vector returns the same output tile as Scaled on the same inputs, and
  ScaledLs with an all-one multiplier vector returns the same output tile as Scaled.
  The vectors are at least as long as the rows of the tile, and converting 0 and 1 from
  the output type to \<open>float\<close> gives 0 and 1.
\<close>

theorem neutral_bias_and_multiplier:
  fixes cvt :: "element \<Rightarrow> element \<Rightarrow> 'a::semiring_1 \<Rightarrow> 'a"
  shows "((\<forall>n<numel bias. vector_entry h bias n = Some 0)
          \<and> (\<forall>row\<in>set tile. length row \<le> numel bias) \<and> cvt Float ElementD 0 = 0 \<longrightarrow>
            launch_tile cvt h ScaledEpilogueBias_EVTCompute
              (ScaledEpilogueBias_prepare_args a b bias) l tile
            = launch_tile cvt h ScaledEpilogue_EVTCompute
                (ScaledEpilogue_prepare_args a b) l tile)
       \<and> ((\<forall>n<numel ls. vector_entry h ls n = Some 1)
          \<and> (\<forall>row\<in>set tile. length row \<le> numel ls) \<and> cvt Float ElementD 1 = 1 \<longrightarrow>
            launch_tile cvt h ScaledEpilogueLs_EVTCompute
              (ScaledEpilogueLs_prepare_args a b ls) l tile
            = launch_tile cvt h ScaledEpilogue_EVTCompute
                (ScaledEpilogue_prepare_args a b) l tile)"
proof (intro conjI impI)
  assume A: "(\<forall>n<numel bias. vector_entry h bias n = Some 0)
          \<and> (\<forall>row\<in>set tile. length row \<le> numel bias) \<and> cvt Float ElementD 0 = 0"
  show "launch_tile cvt h ScaledEpilogueBias_EVTCompute
              (ScaledEpilogueBias_prepare_args a b bias) l tile
            = launch_tile cvt h ScaledEpilogue_EVTCompute
                (ScaledEpilogue_prepare_args a b) l tile"
  proof (rule launch_tile_cong [OF prepare_ScaledBias prepare_Scaled])
    fix m n assume "m < length tile" "n < length (tile ! m)"
    with A have "vector_entry h bias n = Some 0"
      using column_in_range by blast
    with A show "launch cvt h ScaledEpilogueBias_EVTCompute
            (ScaledEpilogueBias_prepare_args a b bias) (tile ! m ! n) (m, n, l)
          = launch cvt h ScaledEpilogue_EVTCompute
            (ScaledEpilogue_prepare_args a b) (tile ! m ! n) (m, n, l)"
      by (simp add: launch_ScaledBias launch_Scaled split: option.splits)
  qed
next
  assume A: "(\<forall>n<numel ls. vector_entry h ls n = Some 1)
          \<and> (\<forall>row\<in>set tile. length row \<le> numel ls) \<and> cvt Float ElementD 1 = 1"
  show "launch_tile cvt h ScaledEpilogueLs_EVTCompute
              (ScaledEpilogueLs_prepare_args a b ls) l tile
            = launch_tile cvt h ScaledEpilogue_EVTCompute
                (ScaledEpilogue_prepare_args a b) l tile"
  proof (rule launch_tile_cong [OF prepare_ScaledLs prepare_Scaled])
    fix m n assume "m < length tile" "n < length (tile ! m)"
    with A have "vector_entry h ls n = Some 1"
      using column_in_range by blast
    with A show "launch cvt h ScaledEpilogueLs_EVTCompute
            (ScaledEpilogueLs_prepare_args a b ls) (tile ! m ! n) (m, n, l)
          = launch cvt h ScaledEpilogue_EVTCompute
            (ScaledEpilogue_prepare_args a b) (tile ! m ! n) (m, n, l)"
      by (simp add: launch_ScaledLs launch_Scaled split: option.splits)
  qed
qed

theorem neutral_bias_and_multiplier_witness:
  "launch_tile exact example_heap ScaledEpilogueBias_EVTCompute
     (ScaledEpilogueBias_prepare_args example_a_scales example_b_scales example_zeros)
     0 example_tile
   = launch_tile exact example_heap ScaledEpilogue_EVTCompute
       (ScaledEpilogue_prepare_args example_a_scales example_b_scales) 0 example_tile
   \<and> launch_tile exact example_heap ScaledEpilogueLs_EVTCompute
       (ScaledEpilogueLs_prepare_args example_a_scales example_b_scales example_ones)
       0 example_tile
     = launch_tile exact example_heap ScaledEpilogue_EVTCompute
         (ScaledEpilogue_prepare_args example_a_scales example_b_scales) 0 example_tile"
  using neutral_bias_and_multiplier
          [of example_zeros example_heap example_tile exact example_a_scales example_b_scales
              0 example_ones]
        example_zeros_entries example_ones_entries example_tile_rows
  by (simp add: exact_def)

text \<open>
  Claim C6. Identity law, for all four epilogues and every accumulator tile: when scaleA
  and scaleB are both scalars of value 1, the bias (where the epilogue has one) is the
  all-zero vector and the multiplier (where it has one) the all-one vector, the output
  tile is the accumulator tile converted to \<open>float\<close> and then to the output type.
\<close>

theorem identity_law:
  fixes cvt :: "element \<Rightarrow> element \<Rightarrow> 'a::semiring_1 \<Rightarrow> 'a"
  assumes "numel a = 1" and "h (data_ptr a) = Some 1"
    and "numel b = 1" and "h (data_ptr b) = Some 1"
  shows "launch_tile cvt h ScaledEpilogue_EVTCompute (ScaledEpilogue_prepare_args a b) l tile
         = Inr (map (map (\<lambda>x. Some (cvt ElementD Float (cvt Float ElementAcc x)))) tile)
       \<and> ((\<forall>n<numel bias. vector_entry h bias n = Some 0)
          \<and> (\<forall>row\<in>set tile. length row \<le> numel bias) \<and> cvt Float ElementD 0 = 0 \<longrightarrow>
            launch_tile cvt h ScaledEpilogueBias_EVTCompute
              (ScaledEpilogueBias_prepare_args a b bias) l tile
            = Inr (map (map (\<lambda>x. Some (cvt ElementD Float (cvt Float ElementAcc x)))) tile))
       \<and> ((\<forall>n<numel ls. vector_entry h ls n = Some 1)
          \<and> (\<forall>row\<in>set tile. length row \<le> numel ls) \<and> cvt Float ElementD 1 = 1 \<longrightarrow>
            launch_tile cvt h ScaledEpilogueLs_EVTCompute
              (ScaledEpilogueLs_prepare_args a b ls) l tile
            = Inr (map (map (\<lambda>x. Some (cvt ElementD Float (cvt Float ElementAcc x)))) tile))
       \<and> ((\<forall>n<numel bias. vector_entry h bias n = Some 0)
          \<and> (\<forall>row\<in>set tile. length row \<le> numel bias) \<and> cvt Float ElementD 0 = 0
          \<and> (\<forall>n<numel ls. vector_entry h ls n = Some 1)
          \<and> (\<forall>row\<in>set tile. length row \<le> numel ls) \<and> cvt Float ElementD 1 = 1 \<longrightarrow>
            launch_tile cvt h ScaledEpilogueBiasLs_EVTCompute
              (ScaledEpilogueBiasLs_prepare_args a b bias ls) l tile
            = Inr (map (map (\<lambda>x. Some (cvt ElementD Float (cvt Float ElementAcc x)))) tile))"
proof -
  have scales: "scale_entry h a m = Some 1" "scale_entry h b n = Some 1" for m n
    using assms by (simp_all add: scale_entry_def)
  have scaled: "launch_tile cvt h ScaledEpilogue_EVTCompute
                  (ScaledEpilogue_prepare_args a b) l tile
         = Inr (map (map (\<lambda>x. Some (cvt ElementD Float (cvt Float ElementAcc x)))) tile)"
    by (rule launch_tile_pointwise [OF prepare_Scaled]) (simp add: launch_Scaled scales)
  have with_bias: "launch_tile cvt h ScaledEpilogueBias_EVTCompute
              (ScaledEpilogueBias_prepare_args a b bias) l tile
            = Inr (map (map (\<lambda>x. Some (cvt ElementD Float (cvt Float ElementAcc x)))) tile)"
    if "\<forall>n<numel bias. vector_entry h bias n = Some 0"
      and "\<forall>row\<in>set tile. length row \<le> numel bias" and "cvt Float ElementD 0 = 0"
  proof (rule launch_tile_pointwise [OF prepare_ScaledBias])
    fix m n assume "m < length tile" "n < length (tile ! m)"
    with that have "vector_entry h bias n = Some 0"
      using column_in_range by blast
    with that show "launch cvt h ScaledEpilogueBias_EVTCompute
            (ScaledEpilogueBias_prepare_args a b bias) (tile ! m ! n) (m, n, l)
          = Some (cvt ElementD Float (cvt Float ElementAcc (tile ! m ! n)))"
      by (simp add: launch_ScaledBias scales)
  qed
  have with_ls: "launch_tile cvt h ScaledEpilogueLs_EVTCompute
              (ScaledEpilogueLs_prepare_args a b ls) l tile
            = Inr (map (map (\<lambda>x. Some (cvt ElementD Float (cvt Float ElementAcc x)))) tile)"
    if "\<forall>n<numel ls. vector_entry h ls n = Some 1"
      and "\<forall>row\<in>set tile. length row \<le> numel ls" and "cvt Float ElementD 1 = 1"
  proof (rule launch_tile_pointwise [OF prepare_ScaledLs])
    fix m n assume "m < length tile" "n < length (tile ! m)"
    with that have "vector_entry h ls n = Some 1"
      using column_in_range by blast
    with that show "launch cvt h ScaledEpilogueLs_EVTCompute
            (ScaledEpilogueLs_prepare_args a b ls) (tile ! m ! n) (m, n, l)
          = Some (cvt ElementD Float (cvt Float ElementAcc (tile ! m ! n)))"
      by (simp add: launch_ScaledLs scales)
  qed
  have with_both: "launch_tile cvt h ScaledEpilogueBiasLs_EVTCompute
              (ScaledEpilogueBiasLs_prepare_args a b bias ls) l tile
            = Inr (map (map (\<lambda>x. Some (cvt ElementD Float (cvt Float ElementAcc x)))) tile)"
    if "\<forall>n<numel bias. vector_entry h bias n = Some 0"
      and "\<forall>row\<in>set tile. length row \<le> numel bias" and "cvt Float ElementD 0 = 0"
      and "\<forall>n<numel ls. vector_entry h ls n = Some 1"
      and "\<forall>row\<in>set tile. length row \<le> numel ls" and "cvt Float ElementD 1 = 1"
  proof (rule launch_tile_pointwise [OF prepare_ScaledBiasLs])
    fix m n assume "m < length tile" "n < length (tile ! m)"
    with that have "vector_entry h bias n = Some 0" "vector_entry h ls n = Some 1"
      using column_in_range by blast+
    with that show "launch cvt h ScaledEpilogueBiasLs_EVTCompute
            (ScaledEpilogueBiasLs_prepare_args a b bias ls) (tile ! m ! n) (m, n, l)
          = Some (cvt ElementD Float (cvt Float ElementAcc (tile ! m ! n)))"
      by (simp add: launch_ScaledBiasLs scales)
  qed
  show ?thesis
    using scaled with_bias with_ls with_both by blast
qed

theorem identity_law_witness:
  "launch_tile exact example_heap ScaledEpilogue_EVTCompute
     (ScaledEpilogue_prepare_args example_one example_one) 0 example_tile
   = Inr [[Some 1, Some 2], [Some 3, Some 4]]
   \<and> launch_tile exact example_heap ScaledEpilogueBias_EVTCompute
     (ScaledEpilogueBias_prepare_args example_one example_one example_zeros) 0 example_tile
   = Inr [[Some 1, Some 2], [Some 3, Some 4]]
   \<and> launch_tile exact example_heap ScaledEpilogueLs_EVTCompute
     (ScaledEpilogueLs_prepare_args example_one example_one example_ones) 0 example_tile
   = Inr [[Some 1, Some 2], [Some 3, Some 4]]
   \<and> launch_tile exact example_heap ScaledEpilogueBiasLs_EVTCompute
     (ScaledEpilogueBiasLs_prepare_args example_one example_one example_zeros example_ones)
     0 example_tile
   = Inr [[Some 1, Some 2], [Some 3, Some 4]]"
proof -
  have one: "numel example_one = 1" "example_heap (data_ptr example_one) = Some 1"
    by (simp_all add: example_defs)
  have tile: "map (map (\<lambda>x. Some (exact ElementD Float (exact Float ElementAcc x)))) example_tile
              = [[Some 1, Some 2], [Some 3, Some 4]]"
    by (simp add: example_defs)
  show ?thesis
    using identity_law
            [of example_one example_heap example_one exact 0 example_tile example_zeros
                example_ones]
          one
      example_zeros_entries example_ones_entries example_tile_rows tile
    by (simp add: exact_def)
qed

subsection \<open>Orientation of the two scales\<close>

text \<open>
  Claim C4. For vector scale operands, in all four epilogues: when only entry \<open>i\<close> of
  the scaleA vector changes, the output at every coordinate outside row \<open>i\<close> is
  unchanged, and when only entry \<open>j\<close> of the scaleB vector changes, the output at every
  coordinate outside column \<open>j\<close> is unchanged. ScaleA is the per-row operand and scaleB
  the per-column one, never the other way round.
\<close>

theorem scale_entry_change_is_local:
  assumes "numel a \<noteq> 1" and "numel b \<noteq> 1" and "m < numel a" and "n < numel b"
  shows "(changed_only_at h h' a i \<and> unchanged h h' b \<and> m \<noteq> i \<longrightarrow>
            launch cvt h' ScaledEpilogue_EVTCompute (ScaledEpilogue_prepare_args a b)
              acc (m, n, l)
            = launch cvt h ScaledEpilogue_EVTCompute (ScaledEpilogue_prepare_args a b)
              acc (m, n, l)
          \<and> (unchanged h h' bias \<and> n < numel bias \<longrightarrow>
              launch cvt h' ScaledEpilogueBias_EVTCompute
                (ScaledEpilogueBias_prepare_args a b bias) acc (m, n, l)
              = launch cvt h ScaledEpilogueBias_EVTCompute
                (ScaledEpilogueBias_prepare_args a b bias) acc (m, n, l))
          \<and> (unchanged h h' ls \<and> n < numel ls \<longrightarrow>
              launch cvt h' ScaledEpilogueLs_EVTCompute
                (ScaledEpilogueLs_prepare_args a b ls) acc (m, n, l)
              = launch cvt h ScaledEpilogueLs_EVTCompute
                (ScaledEpilogueLs_prepare_args a b ls) acc (m, n, l))
          \<and> (unchanged h h' bias \<and> n < numel bias \<and> unchanged h h' ls \<and> n < numel ls \<longrightarrow>
              launch cvt h' ScaledEpilogueBiasLs_EVTCompute
                (ScaledEpilogueBiasLs_prepare_args a b bias ls) acc (m, n, l)
              = launch cvt h ScaledEpilogueBiasLs_EVTCompute
                (ScaledEpilogueBiasLs_prepare_args a b bias ls) acc (m, n, l)))
       \<and> (unchanged h h' a \<and> changed_only_at h h' b j \<and> n \<noteq> j \<longrightarrow>
            launch cvt h' ScaledEpilogue_EVTCompute (ScaledEpilogue_prepare_args a b)
              acc (m, n, l)
            = launch cvt h ScaledEpilogue_EVTCompute (ScaledEpilogue_prepare_args a b)
              acc (m, n, l)
          \<and> (unchanged h h' bias \<and> n < numel bias \<longrightarrow>
              launch cvt h' ScaledEpilogueBias_EVTCompute
                (ScaledEpilogueBias_prepare_args a b bias) acc (m, n, l)
              = launch cvt h ScaledEpilogueBias_EVTCompute
                (ScaledEpilogueBias_prepare_args a b bias) acc (m, n, l))
          \<and> (unchanged h h' ls \<and> n < numel ls \<longrightarrow>
              launch cvt h' ScaledEpilogueLs_EVTCompute
                (ScaledEpilogueLs_prepare_args a b ls) acc (m, n, l)
              = launch cvt h ScaledEpilogueLs_EVTCompute
                (ScaledEpilogueLs_prepare_args a b ls) acc (m, n, l))
          \<and> (unchanged h h' bias \<and> n < numel bias \<and> unchanged h h' ls \<and> n < numel ls \<longrightarrow>
              launch cvt h' ScaledEpilogueBiasLs_EVTCompute
                (ScaledEpilogueBiasLs_prepare_args a b bias ls) acc (m, n, l)
              = launch cvt h ScaledEpilogueBiasLs_EVTCompute
                (ScaledEpilogueBiasLs_prepare_args a b bias ls) acc (m, n, l)))"
proof -
  have a_other_row: "scale_entry h' a m = scale_entry h a m"
    if "changed_only_at h h' a i" "m \<noteq> i"
    using that assms by (simp add: scale_entry_def changed_only_at_def)
  have a_same: "scale_entry h' a m = scale_entry h a m" if "unchanged h h' a"
    using that assms by (simp add: scale_entry_def unchanged_def)
  have b_other_column: "scale_entry h' b n = scale_entry h b n"
    if "changed_only_at h h' b j" "n \<noteq> j"
    using that assms by (simp add: scale_entry_def changed_only_at_def)
  have b_same: "scale_entry h' b n = scale_entry h b n" if "unchanged h h' b"
    using that assms by (simp add: scale_entry_def unchanged_def)
  have bias_same: "vector_entry h' bias n = vector_entry h bias n"
    if "unchanged h h' bias" "n < numel bias"
    using that by (simp add: vector_entry_def unchanged_def)
  have ls_same: "vector_entry h' ls n = vector_entry h ls n"
    if "unchanged h h' ls" "n < numel ls"
    using that by (simp add: vector_entry_def unchanged_def)
  show ?thesis
    by (intro conjI impI)
       (simp_all add: launch_Scaled launch_ScaledBias launch_ScaledLs launch_ScaledBiasLs
          a_other_row a_same b_other_column b_same bias_same ls_same
          cong: option.case_cong)
qed

theorem scale_entry_change_is_local_witness:
  "launch exact (example_heap(100 \<mapsto> 7)) ScaledEpilogue_EVTCompute
     (ScaledEpilogue_prepare_args example_a_scales example_b_scales) 3 (1, 0, 0)
   = launch exact example_heap ScaledEpilogue_EVTCompute
     (ScaledEpilogue_prepare_args example_a_scales example_b_scales) 3 (1, 0, 0)
   \<and> launch exact (example_heap(100 \<mapsto> 7)) ScaledEpilogueBiasLs_EVTCompute
     (ScaledEpilogueBiasLs_prepare_args example_a_scales example_b_scales example_bias
        example_ls) 3 (1, 0, 0)
   = launch exact example_heap ScaledEpilogueBiasLs_EVTCompute
     (ScaledEpilogueBiasLs_prepare_args example_a_scales example_b_scales example_bias
        example_ls) 3 (1, 0, 0)
   \<and> launch exact (example_heap(201 \<mapsto> 1000)) ScaledEpilogue_EVTCompute
     (ScaledEpilogue_prepare_args example_a_scales example_b_scales) 3 (1, 0, 0)
   = launch exact example_heap ScaledEpilogue_EVTCompute
     (ScaledEpilogue_prepare_args example_a_scales example_b_scales) 3 (1, 0, 0)
   \<and> launch exact (example_heap(100 \<mapsto> 7)) ScaledEpilogue_EVTCompute
     (ScaledEpilogue_prepare_args example_a_scales example_b_scales) 1 (0, 0, 0)
   = Some 70
   \<and> launch exact (example_heap(201 \<mapsto> 1000)) ScaledEpilogue_EVTCompute
     (ScaledEpilogue_prepare_args example_a_scales example_b_scales) 4 (1, 1, 0)
   = Some 12000"
proof -
  have changed_row:
    "launch exact (example_heap(100 \<mapsto> 7)) ScaledEpilogue_EVTCompute
       (ScaledEpilogue_prepare_args example_a_scales example_b_scales) 1 (0, 0, 0)
     = Some 70"
    by (simp add: launch_Scaled scale_entry_def example_defs)
  have changed_column:
    "launch exact (example_heap(201 \<mapsto> 1000)) ScaledEpilogue_EVTCompute
       (ScaledEpilogue_prepare_args example_a_scales example_b_scales) 4 (1, 1, 0)
     = Some 12000"
    by (simp add: launch_Scaled scale_entry_def example_defs)
  have vectors: "numel example_a_scales \<noteq> 1" "numel example_b_scales \<noteq> 1"
    "1 < numel example_a_scales" "0 < numel example_b_scales"
    "0 < numel example_bias" "0 < numel example_ls"
    by (simp_all add: example_defs)
  have row_change: "changed_only_at example_heap (example_heap(100 \<mapsto> 7)) example_a_scales 0"
    "unchanged example_heap (example_heap(100 \<mapsto> 7)) example_b_scales"
    "unchanged example_heap (example_heap(100 \<mapsto> 7)) example_bias"
    "unchanged example_heap (example_heap(100 \<mapsto> 7)) example_ls"
    by (simp_all add: changed_only_at_def unchanged_def example_a_scales_def
        example_b_scales_def example_bias_def example_ls_def)
  have column_change:
    "changed_only_at example_heap (example_heap(201 \<mapsto> 1000)) example_b_scales 1"
    "unchanged example_heap (example_heap(201 \<mapsto> 1000)) example_a_scales"
    by (simp_all add: changed_only_at_def unchanged_def example_a_scales_def
        example_b_scales_def)
  show ?thesis
    using scale_entry_change_is_local
            [of example_a_scales example_b_scales 1 0 example_heap
                "example_heap(100 \<mapsto> 7)" 0 exact 3 0 example_bias example_ls 1]
          scale_entry_change_is_local
            [of example_a_scales example_b_scales 1 0 example_heap
                "example_heap(201 \<mapsto> 1000)" 0 exact 3 0 example_bias example_ls 1]
          vectors row_change column_change changed_row changed_column
    by simp
qed

end
